theory Spec2Isabelle
  imports Complex_Main "HOL-Library.Multiset"
begin

section \<open>Data model\<close>

text \<open>
  The listing pages \<^verbatim>\<open>app/events/page.tsx\<close> and the articles page declare a
  type \<^verbatim>\<open>post\<close>. The articles variant has the six fields of \<open>post\<close>; the events
  variant extends it with \<open>time\<close>, \<open>location\<close> and \<open>end_time\<close>. The functions
  below are written over \<open>'a post_scheme\<close>, so they cover both pages. The source
  fields \<^verbatim>\<open>id\<close> and \<^verbatim>\<open>image\<close> are named \<open>item_id\<close> and \<open>image_ref\<close> here, since
  \<open>id\<close> and \<open>image\<close> are constants of HOL. Strings are byte lists (UTF-8).
\<close>

record post =
  item_id :: int
  slug :: string
  title :: string
  image_ref :: string
  date_created :: string
  tags :: "string list"

record event_post = post +
  time :: string
  location :: string
  end_time :: string

text \<open>
  A row of the join collection (\<^verbatim>\<open>events_tags\<close> with the foreign key
  \<^verbatim>\<open>events_id\<close>, \<^verbatim>\<open>articles_tags\<close> with \<^verbatim>\<open>articles_id\<close>) and a row of the
  \<^verbatim>\<open>tags\<close> collection (\<^verbatim>\<open>tag.id\<close>, \<^verbatim>\<open>tag.tag\<close>). Ids are numbers and labels are
  strings, as the annotation \<^verbatim>\<open>Record<number, string>\<close> of the dictionary says.
\<close>

record join_row =
  content_id :: int
  tags_id :: int

record tag_row =
  tag_id :: int
  tag :: string

section \<open>Tag-join aggregator\<close>

text \<open>
  \<^verbatim>\<open>tags.reduce((acc, tag) => { acc[tag.id] = tag.tag; return acc }, {})\<close>:
  a left fold that stores each label under its id, a later row overwriting an
  earlier one with the same id.
\<close>

definition tagMap :: "tag_row list \<Rightarrow> (int \<rightharpoonup> string)" where
  "tagMap tgs = fold (\<lambda>t acc. acc(tag_id t \<mapsto> tag t)) tgs Map.empty"

text \<open>
  \<^verbatim>\<open>tagMap[id] || ''\<close>: a missing key reads \<^verbatim>\<open>undefined\<close>, which is falsy, and so
  is the empty string; both give \<^verbatim>\<open>''\<close>.
\<close>

definition or_empty :: "string option \<Rightarrow> string" where
  "or_empty v = (case v of None \<Rightarrow> [] | Some l \<Rightarrow> (if l = [] then [] else l))"

text \<open>\<^verbatim>\<open>Boolean\<close> on a string: only the empty string is falsy.\<close>

definition Boolean_str :: "string \<Rightarrow> bool" where
  "Boolean_str l = (l \<noteq> [])"

definition relatedTags :: "join_row list \<Rightarrow> (int \<rightharpoonup> string) \<Rightarrow> int \<Rightarrow> string list" where
  "relatedTags joins tm i =
     map (\<lambda>jr. or_empty (tm (tags_id jr))) (filter (\<lambda>jr. content_id jr = i) joins)"

text \<open>
  The body of the \<^verbatim>\<open>try\<close> block after the three collections have arrived:
  \<^verbatim>\<open>events.map(item => ({...item, tags: relatedTags.filter(Boolean)}))\<close>. The spread
  keeps every field of the item; \<open>tags\<close> is overwritten whatever the CMS sent.
\<close>

definition eventsWithTags ::
  "'a post_scheme list \<Rightarrow> join_row list \<Rightarrow> tag_row list \<Rightarrow> 'a post_scheme list" where
  "eventsWithTags items joins tgs =
     (let tm = tagMap tgs in
      map (\<lambda>item. item\<lparr>tags := filter Boolean_str (relatedTags joins tm (item_id item))\<rparr>) items)"

text \<open>
  A fetch either rejects with an error \<open>'e\<close> or resolves with a collection.
  \<^verbatim>\<open>Promise.all\<close> rejects as soon as one of its promises rejects; when several
  reject, which rejection it reports depends on the order in which they settle. The
  model reports the first in array order; no statement below depends on that choice.
\<close>

definition Promise_all3 :: "'e + 'a \<Rightarrow> 'e + 'b \<Rightarrow> 'e + 'c \<Rightarrow> 'e + ('a \<times> 'b \<times> 'c)" where
  "Promise_all3 r1 r2 r3 =
     (case r1 of Inl e \<Rightarrow> Inl e | Inr a \<Rightarrow>
      (case r2 of Inl e \<Rightarrow> Inl e | Inr b \<Rightarrow>
       (case r3 of Inl e \<Rightarrow> Inl e | Inr c \<Rightarrow> Inr (a, b, c))))"

text \<open>The console: the entries written by \<^verbatim>\<open>console.error(message, err)\<close>, oldest first.\<close>

type_synonym 'e console = "(string \<times> 'e) list"

definition try_body ::
  "'e + 'a post_scheme list \<Rightarrow> 'e + join_row list \<Rightarrow> 'e + tag_row list
     \<Rightarrow> 'e + 'a post_scheme list" where
  "try_body r1 r2 r3 =
     (case Promise_all3 r1 r2 r3 of
        Inl e \<Rightarrow> Inl e
      | Inr (items, joins, tgs) \<Rightarrow> Inr (eventsWithTags items joins tgs))"

text \<open>
  \<^verbatim>\<open>try { ... return eventsWithTags } catch (err) { console.error(msg, err); return [] }\<close>.
  The function takes the outcomes of the three fetches and the console, and returns
  its value with the console after the call.
\<close>

definition fetchWithTags ::
  "string \<Rightarrow> 'e + 'a post_scheme list \<Rightarrow> 'e + join_row list \<Rightarrow> 'e + tag_row list
     \<Rightarrow> 'e console \<Rightarrow> 'a post_scheme list \<times> 'e console" where
  "fetchWithTags msg r1 r2 r3 con =
     (case try_body r1 r2 r3 of
        Inr res \<Rightarrow> (res, con)
      | Inl err \<Rightarrow> ([], con @ [(msg, err)]))"

definition fetchEventsWithTags ::
  "'e + 'a post_scheme list \<Rightarrow> 'e + join_row list \<Rightarrow> 'e + tag_row list
     \<Rightarrow> 'e console \<Rightarrow> 'a post_scheme list \<times> 'e console" where
  "fetchEventsWithTags = fetchWithTags ''Error fetching events with tags:''"

definition fetchArticlesWithTags ::
  "'e + 'a post_scheme list \<Rightarrow> 'e + join_row list \<Rightarrow> 'e + tag_row list
     \<Rightarrow> 'e console \<Rightarrow> 'a post_scheme list \<times> 'e console" where
  "fetchArticlesWithTags = fetchWithTags ''Error fetching articles with tags:''"

section \<open>JavaScript library functions used by the pages\<close>

subsection \<open>Numbers that may be NaN\<close>

text \<open>
  \<^verbatim>\<open>Date.prototype.getTime\<close> returns an integral number of milliseconds or NaN.
  Such a number is an \<open>int option\<close>, \<open>None\<close> being NaN; a subtraction with a NaN
  operand is NaN.
\<close>

definition js_sub :: "int option \<Rightarrow> int option \<Rightarrow> int option" where
  "js_sub a b = (case a of None \<Rightarrow> None | Some x \<Rightarrow> (case b of None \<Rightarrow> None | Some y \<Rightarrow> Some (x - y)))"

subsection \<open>Array.prototype.slice and Array.prototype.sort\<close>

text \<open>
  \<^verbatim>\<open>xs.slice(start, end)\<close> for integral arguments: a negative index counts from the
  end, both indices are clamped to \<open>[0, length]\<close>, and the result is empty when the
  clamped start is not below the clamped end.
\<close>

definition slice :: "'a list \<Rightarrow> int \<Rightarrow> int \<Rightarrow> 'a list" where
  "slice xs start fin =
     (let len = int (length xs);
          k = (if start < 0 then max (len + start) 0 else min start len);
          final = (if fin < 0 then max (len + fin) 0 else min fin len)
      in take (nat (final - k)) (drop (nat k) xs))"

text \<open>
  \<^verbatim>\<open>xs.sort(comparefn)\<close>. ECMAScript reads a NaN returned by the comparator as
  \<open>+0\<close> and requires a stable sort: \<open>a\<close> is placed before \<open>b\<close> when the
  comparator is negative, after it when positive, and their order is kept when
  it is zero. For a consistent comparator that fixes the result, and the insertion
  sort below computes it. For an inconsistent comparator (one that returns NaN for
  some pairs only) the order is implementation-defined; the model then gives the order
  of this insertion sort.
\<close>

definition SortCompare :: "('a \<Rightarrow> 'a \<Rightarrow> int option) \<Rightarrow> 'a \<Rightarrow> 'a \<Rightarrow> int" where
  "SortCompare comparefn x y = (case comparefn x y of None \<Rightarrow> 0 | Some v \<Rightarrow> v)"

fun sort_insert :: "('a \<Rightarrow> 'a \<Rightarrow> int option) \<Rightarrow> 'a \<Rightarrow> 'a list \<Rightarrow> 'a list" where
  "sort_insert comparefn x [] = [x]"
| "sort_insert comparefn x (y # ys) =
     (if SortCompare comparefn x y \<le> 0 then x # y # ys
      else y # sort_insert comparefn x ys)"

definition Array_sort :: "('a \<Rightarrow> 'a \<Rightarrow> int option) \<Rightarrow> 'a list \<Rightarrow> 'a list" where
  "Array_sort comparefn xs = foldr (sort_insert comparefn) xs []"

subsection \<open>Math.ceil of a quotient\<close>

text \<open>
  \<^verbatim>\<open>Math.ceil(result.length / POSTS_PER_PAGE)\<close>. The quotient is taken exactly, over
  the rationals: an array length is below \<open>2^32\<close>, and the double nearest to
  \<open>n / 12\<close> lies on the same side of every integer as \<open>n / 12\<close> itself.
\<close>

definition Math_ceil :: "rat \<Rightarrow> int" where
  "Math_ceil q = \<lceil>q\<rceil>"

subsection \<open>Date: parsing and toISOString\<close>

text \<open>
  A \<^verbatim>\<open>Date\<close> holds a time value: integral milliseconds since 1970-01-01T00:00:00Z,
  or NaN (an invalid date); here \<open>int option\<close>. What \<^verbatim>\<open>new Date(string)\<close> yields
  depends on the string and on two things that belong to the engine and the machine,
  not to the page. They are the fields of \<open>js_host\<close>:
  \<^item> \<open>LocalTZA t\<close> is the offset of local time from UTC, in milliseconds, at the local
    time value \<open>t\<close>; a date-time without a zone designator is read in local time;
  \<^item> \<open>legacy_parse\<close> is the engine's reading of a string that is not in the
    ECMAScript date-time string format (ECMAScript leaves it to the implementation).
  Every function that parses a date takes the host as its first argument, and the
  statements below hold for every host.
\<close>

record js_host =
  LocalTZA :: "int \<Rightarrow> int"
  legacy_parse :: "string \<Rightarrow> int option"

definition is_digit :: "char \<Rightarrow> bool" where
  "is_digit c = (48 \<le> (of_char c :: nat) \<and> (of_char c :: nat) \<le> 57)"

definition digit_val :: "char \<Rightarrow> int" where
  "digit_val c = of_char c - 48"

definition number_of :: "string \<Rightarrow> int option" where
  "number_of s =
     (if s \<noteq> [] \<and> list_all is_digit s
      then Some (foldl (\<lambda>acc c. 10 * acc + digit_val c) 0 s) else None)"

text \<open>
  \<open>MakeDay\<close>: the number of the day \<open>y-m-d\<close> of the proleptic Gregorian calendar,
  day 0 being 1970-01-01 (months counted from 1 here). The year is taken to begin in
  March, so that the leap day is its last day; 400 years have 146097 days. A day
  past the end of the month counts on into the next month: day 30 of February 2024
  is the first of March.
\<close>

definition MakeDay :: "int \<Rightarrow> int \<Rightarrow> int \<Rightarrow> int" where
  "MakeDay y m d =
     (let y' = (if m \<le> 2 then y - 1 else y);
          era = y' div 400;
          yoe = y' - era * 400;
          doy = (153 * (if m > 2 then m - 3 else m + 9) + 2) div 5 + d - 1;
          doe = yoe * 365 + yoe div 4 - yoe div 100 + doy
      in era * 146097 + doe - 719468)"

definition msPerDay :: int where
  "msPerDay = 86400000"

definition MakeTime :: "int \<Rightarrow> int \<Rightarrow> int \<Rightarrow> int \<Rightarrow> int" where
  "MakeTime h m s ms = h * 3600000 + m * 60000 + s * 1000 + ms"

definition MakeDate :: "int \<Rightarrow> int \<Rightarrow> int" where
  "MakeDate day tm = day * msPerDay + tm"

text \<open>
  \<open>TimeClip\<close>: a time value is at most \<open>8.64 * 10^15\<close> milliseconds from the epoch;
  beyond that the date is invalid.
\<close>

definition TimeClip :: "int \<Rightarrow> int option" where
  "TimeClip t = (if abs t \<le> 8640000000000000 then Some t else None)"

text \<open>
  The date \<^verbatim>\<open>YYYY-MM-DD\<close>: the month is from 01 to 12 and the day from 01 to 31, as
  the format says; the day is not checked against the length of the month.
\<close>

definition parse_ymd :: "string \<Rightarrow> (int \<times> int \<times> int) option" where
  "parse_ymd s =
     (if length s = 10 \<and> s ! 4 = CHR ''-'' \<and> s ! 7 = CHR ''-'' then
        (case number_of (take 4 s) of None \<Rightarrow> None | Some y \<Rightarrow>
         (case number_of (take 2 (drop 5 s)) of None \<Rightarrow> None | Some m \<Rightarrow>
          (case number_of (drop 8 s) of None \<Rightarrow> None | Some d \<Rightarrow>
             if 1 \<le> m \<and> m \<le> 12 \<and> 1 \<le> d \<and> d \<le> 31
             then Some (y, m, d) else None)))
      else None)"

text \<open>
  The time of day \<^verbatim>\<open>HH:mm\<close>, \<^verbatim>\<open>HH:mm:ss\<close> or \<^verbatim>\<open>HH:mm:ss.sss\<close> in milliseconds;
  \<^verbatim>\<open>24:00:00\<close> is the end of the day.
\<close>

definition parse_hms :: "string \<Rightarrow> int option" where
  "parse_hms t =
     (let n = length t in
      if (n = 5 \<or> n = 8 \<or> n = 12) \<and> t ! 2 = CHR '':''
         \<and> (n < 8 \<or> t ! 5 = CHR '':'') \<and> (n < 12 \<or> t ! 8 = CHR ''.'') then
        (case number_of (take 2 t) of None \<Rightarrow> None | Some h \<Rightarrow>
         (case number_of (take 2 (drop 3 t)) of None \<Rightarrow> None | Some m \<Rightarrow>
          (case (if n \<ge> 8 then number_of (take 2 (drop 6 t)) else Some 0) of None \<Rightarrow> None | Some sec \<Rightarrow>
           (case (if n = 12 then number_of (drop 9 t) else Some 0) of None \<Rightarrow> None | Some ms \<Rightarrow>
              if (h \<le> 23 \<and> m \<le> 59 \<and> sec \<le> 59) \<or> (h = 24 \<and> m = 0 \<and> sec = 0 \<and> ms = 0)
              then Some (MakeTime h m sec ms) else None))))
      else None)"

text \<open>
  The zone designator at the end of a date-time: \<^verbatim>\<open>Z\<close>, or an offset \<^verbatim>\<open>+HH:mm\<close> or
  \<^verbatim>\<open>-HH:mm\<close>, or none. The result is the text before the designator with the offset
  from UTC in minutes, or the whole text with \<open>None\<close> when there is no designator.
\<close>

definition parse_zone :: "string \<Rightarrow> string \<times> int option" where
  "parse_zone t =
     (let n = length t in
      if n \<ge> 1 \<and> t ! (n - 1) = CHR ''Z'' then (take (n - 1) t, Some 0)
      else if n \<ge> 6 \<and> (t ! (n - 6) = CHR ''+'' \<or> t ! (n - 6) = CHR ''-'') \<and> t ! (n - 3) = CHR '':'' then
        (case number_of (take 2 (drop (n - 5) t)) of None \<Rightarrow> (t, None) | Some h \<Rightarrow>
         (case number_of (drop (n - 2) t) of None \<Rightarrow> (t, None) | Some m \<Rightarrow>
            if h \<le> 23 \<and> m \<le> 59
            then (take (n - 6) t,
                  Some (if t ! (n - 6) = CHR ''-'' then - (h * 60 + m) else h * 60 + m))
            else (t, None)))
      else (t, None))"

text \<open>
  A string in the date-time string format. The date-only form is read as UTC. A
  date-time with a designator is that instant; a date-time without one is a local
  time \<open>t\<close>, and the instant is \<open>t - LocalTZA t\<close>. The forms covered are
  \<^verbatim>\<open>YYYY-MM-DD\<close> alone or followed by \<^verbatim>\<open>T\<close>, a time of day and the designator.
\<close>

definition parse_iso :: "(int \<Rightarrow> int) \<Rightarrow> string \<Rightarrow> int option" where
  "parse_iso tza s =
     (if length s = 10 then
        (case parse_ymd s of None \<Rightarrow> None
         | Some (y, m, d) \<Rightarrow> Some (MakeDate (MakeDay y m d) 0))
      else if length s > 11 \<and> s ! 10 = CHR ''T'' then
        (case parse_ymd (take 10 s) of None \<Rightarrow> None | Some (y, m, d) \<Rightarrow>
         (case parse_zone (drop 11 s) of (t, zone) \<Rightarrow>
          (case parse_hms t of None \<Rightarrow> None
           | Some tm \<Rightarrow>
              (let local = MakeDate (MakeDay y m d) tm in
               case zone of
                 Some off \<Rightarrow> Some (local - off * 60000)
               | None \<Rightarrow> Some (local - tza local)))))
      else None)"

text \<open>
  \<^verbatim>\<open>Date.parse\<close>: the date-time string format first; every string that
  \<open>parse_iso\<close> does not read is left to the engine.
\<close>

definition Date_parse :: "js_host \<Rightarrow> string \<Rightarrow> int option" where
  "Date_parse host s =
     (case parse_iso (LocalTZA host) s of
        Some t \<Rightarrow> Some t
      | None \<Rightarrow> legacy_parse host s)"

text \<open>\<^verbatim>\<open>new Date(s)\<close>: the parsed time value, clipped.\<close>

definition new_Date :: "js_host \<Rightarrow> string \<Rightarrow> int option" where
  "new_Date host s = (case Date_parse host s of None \<Rightarrow> None | Some t \<Rightarrow> TimeClip t)"

text \<open>\<^verbatim>\<open>new Date(s).getTime()\<close>.\<close>

definition getTime :: "js_host \<Rightarrow> string \<Rightarrow> int option" where
  "getTime host s = new_Date host s"

text \<open>The calendar date of a day number (year, month from 1, day of the month).\<close>

definition civil_of_day :: "int \<Rightarrow> int \<times> int \<times> int" where
  "civil_of_day z =
     (let z' = z + 719468;
          era = z' div 146097;
          doe = z' - era * 146097;
          yoe = (doe - doe div 1460 + doe div 36524 - doe div 146096) div 365;
          doy = doe - (365 * yoe + yoe div 4 - yoe div 100);
          mp = (5 * doy + 2) div 153;
          d = doy - (153 * mp + 2) div 5 + 1;
          m = (if mp < 10 then mp + 3 else mp - 9);
          y = yoe + era * 400
      in ((if m \<le> 2 then y + 1 else y), m, d))"

definition digit_char :: "int \<Rightarrow> char" where
  "digit_char n = char_of (48 + n)"

text \<open>The last \<open>k\<close> decimal digits of a natural number, zero-padded.\<close>

fun pad :: "nat \<Rightarrow> int \<Rightarrow> string" where
  "pad 0 n = []"
| "pad (Suc k) n = pad k (n div 10) @ [digit_char (n mod 10)]"

datatype js_error = RangeError

text \<open>
  \<^verbatim>\<open>toISOString\<close>: \<^verbatim>\<open>YYYY-MM-DDTHH:mm:ss.sssZ\<close> in UTC, the year with a sign and six
  digits when it is outside \<open>0..9999\<close>; on an invalid date it throws a RangeError.
\<close>

definition toISOString :: "int option \<Rightarrow> js_error + string" where
  "toISOString tv =
     (case tv of None \<Rightarrow> Inl RangeError
      | Some t \<Rightarrow>
         (let day = t div msPerDay; tm = t mod msPerDay in
          case civil_of_day day of (y, m, d) \<Rightarrow>
            Inr ((if 0 \<le> y \<and> y \<le> 9999 then pad 4 y
                  else (if y < 0 then ''-'' else ''+'') @ pad 6 (abs y))
                 @ ''-'' @ pad 2 m @ ''-'' @ pad 2 d @ ''T''
                 @ pad 2 (tm div 3600000) @ '':'' @ pad 2 (tm div 60000 mod 60) @ '':''
                 @ pad 2 (tm div 1000 mod 60) @ ''.'' @ pad 3 (tm mod 1000) @ ''Z'')))"

subsection \<open>String.prototype.replace with the pattern of formatDate\<close>

text \<open>
  \<^verbatim>\<open>s.replace(/-|:|\.\d+/g, '')\<close>: scanning from the left, every \<^verbatim>\<open>-\<close> and
  \<^verbatim>\<open>:\<close> is removed, and so is every dot that is followed by a digit, together with
  the whole run of digits after it. The flag says that the scan is inside such a run.
\<close>

fun strip_separators :: "bool \<Rightarrow> string \<Rightarrow> string" where
  "strip_separators in_run [] = []"
| "strip_separators in_run (c # cs) =
     (if in_run \<and> is_digit c then strip_separators True cs
      else if c = CHR ''-'' \<or> c = CHR '':'' then strip_separators False cs
      else if c = CHR ''.'' \<and> cs \<noteq> [] \<and> is_digit (hd cs) then strip_separators True cs
      else c # strip_separators False cs)"

subsection \<open>URLSearchParams\<close>

text \<open>
  \<^verbatim>\<open>URLSearchParams.prototype.toString\<close>: the \<^verbatim>\<open>application/x-www-form-urlencoded\<close>
  serialiser. A byte is kept when it is an ASCII letter or digit or one of
  \<^verbatim>\<open>* - . _\<close>; a space becomes \<^verbatim>\<open>+\<close>; every other byte becomes \<^verbatim>\<open>%\<close> and two
  upper-case hexadecimal digits. Pairs are joined by \<^verbatim>\<open>&\<close> in insertion order.
\<close>

definition hex_digit :: "nat \<Rightarrow> char" where
  "hex_digit n = (if n < 10 then char_of (48 + n) else char_of (55 + n))"

definition urlencode_byte :: "char \<Rightarrow> string" where
  "urlencode_byte c =
     (let n = (of_char c :: nat) in
      if (48 \<le> n \<and> n \<le> 57) \<or> (65 \<le> n \<and> n \<le> 90) \<or> (97 \<le> n \<and> n \<le> 122)
         \<or> n = 42 \<or> n = 45 \<or> n = 46 \<or> n = 95 then [c]
      else if n = 32 then ''+''
      else [CHR ''%'', hex_digit (n div 16), hex_digit (n mod 16)])"

definition urlencode :: "string \<Rightarrow> string" where
  "urlencode s = concat (map urlencode_byte s)"

fun join_amp :: "string list \<Rightarrow> string" where
  "join_amp [] = []"
| "join_amp [x] = x"
| "join_amp (x # y # ys) = x @ ''&'' @ join_amp (y # ys)"

definition URLSearchParams_toString :: "(string \<times> string) list \<Rightarrow> string" where
  "URLSearchParams_toString ps =
     join_amp (map (\<lambda>(k, v). urlencode k @ ''='' @ urlencode v) ps)"

text \<open>
  Reading a query parameter back from a URL, as \<^verbatim>\<open>new URL(url).searchParams.get(name)\<close>
  does for a URL without a fragment: the text after the first \<^verbatim>\<open>?\<close> is split at
  \<^verbatim>\<open>&\<close>, each piece at its first \<^verbatim>\<open>=\<close>, and name and value are decoded
  (\<^verbatim>\<open>+\<close> is a space, \<^verbatim>\<open>%XY\<close> a byte). The pages do not call it; the statement about
  the generated calendar link is made with it.
\<close>

fun split_on :: "char \<Rightarrow> string \<Rightarrow> string list" where
  "split_on sep [] = [[]]"
| "split_on sep (c # cs) =
     (if c = sep then [] # split_on sep cs
      else (case split_on sep cs of [] \<Rightarrow> [[c]] | w # ws \<Rightarrow> (c # w) # ws))"

definition hex_val :: "char \<Rightarrow> nat option" where
  "hex_val c =
     (let n = (of_char c :: nat) in
      if 48 \<le> n \<and> n \<le> 57 then Some (n - 48)
      else if 65 \<le> n \<and> n \<le> 70 then Some (n - 55)
      else if 97 \<le> n \<and> n \<le> 102 then Some (n - 87)
      else None)"

fun percent_decode :: "string \<Rightarrow> string" where
  "percent_decode [] = []"
| "percent_decode [c] = (if c = CHR ''+'' then '' '' else [c])"
| "percent_decode [c, d] =
     (if c = CHR ''+'' then CHR '' '' # percent_decode [d] else c # percent_decode [d])"
| "percent_decode (c # h1 # h2 # cs) =
     (if c = CHR ''+'' then CHR '' '' # percent_decode (h1 # h2 # cs)
      else if c = CHR ''%'' \<and> hex_val h1 \<noteq> None \<and> hex_val h2 \<noteq> None
        then char_of (16 * the (hex_val h1) + the (hex_val h2)) # percent_decode cs
      else c # percent_decode (h1 # h2 # cs))"

definition URL_searchParams :: "string \<Rightarrow> (string \<times> string) list" where
  "URL_searchParams url =
     map (\<lambda>piece. (percent_decode (takeWhile (\<lambda>c. c \<noteq> CHR ''='') piece),
                    percent_decode (drop 1 (dropWhile (\<lambda>c. c \<noteq> CHR ''='') piece))))
       (filter (\<lambda>piece. piece \<noteq> [])
          (split_on CHR ''&'' (drop 1 (dropWhile (\<lambda>c. c \<noteq> CHR ''?'') url))))"

definition searchParams_get :: "string \<Rightarrow> string \<Rightarrow> string option" where
  "searchParams_get url name = map_of (URL_searchParams url) name"

section \<open>Calendar-link generator\<close>

text \<open>
  \<^verbatim>\<open>formatDate(date) = date.toISOString().replace(/-|:|\.\d+/g, '')\<close> and
  \<^verbatim>\<open>generateGoogleCalendarUrl\<close> of the events page. The function reads four fields of
  the post and, through \<^verbatim>\<open>new Date\<close>, the host; it has no state to read or write.
  The only way it fails is the RangeError of \<^verbatim>\<open>toISOString\<close> on an invalid date.
\<close>

definition formatDate :: "int option \<Rightarrow> js_error + string" where
  "formatDate date =
     (case toISOString date of Inl e \<Rightarrow> Inl e | Inr str \<Rightarrow> Inr (strip_separators False str))"

definition generateGoogleCalendarUrl :: "js_host \<Rightarrow> 'a event_post_scheme \<Rightarrow> js_error + string" where
  "generateGoogleCalendarUrl host post =
     (let startDateTime = new_Date host (time post);
          endDateTime = new_Date host (end_time post)
      in case formatDate startDateTime of Inl e \<Rightarrow> Inl e | Inr start \<Rightarrow>
         (case formatDate endDateTime of Inl e \<Rightarrow> Inl e | Inr fin \<Rightarrow>
            Inr (''https://calendar.google.com/calendar/render?'' @
                 URLSearchParams_toString
                   [(''action'', ''TEMPLATE''),
                    (''text'', title post),
                    (''details'', title post @ '' - Learn more at our website.''),
                    (''location'', location post),
                    (''dates'', start @ ''/'' @ fin)])))"

section \<open>Listing controller\<close>

datatype sort_order = newest | oldest

definition POSTS_PER_PAGE :: int where
  "POSTS_PER_PAGE = 12"

text \<open>
  The eight \<^verbatim>\<open>useState\<close> cells of the component \<^verbatim>\<open>Events\<close> (and \<^verbatim>\<open>Articles\<close>),
  with the number of \<^verbatim>\<open>window.scrollTo({top: 0})\<close> requests issued so far, which is
  the one effect of a handler outside the component's state.
\<close>

record 'p listing =
  selectedTags :: "string list"
  sortOrder :: sort_order
  isTagDropdownOpen :: bool
  filteredPosts :: "'p list"
  currentPage :: int
  totalPages :: int
  displayedPosts :: "'p list"
  blogPosts :: "'p list"
  scrollToTop :: nat

text \<open>The initial values of the \<^verbatim>\<open>useState\<close> calls.\<close>

definition initial :: "'p listing" where
  "initial = \<lparr>selectedTags = [], sortOrder = newest, isTagDropdownOpen = False,
     filteredPosts = [], currentPage = 1, totalPages = 1, displayedPosts = [],
     blogPosts = [], scrollToTop = 0\<rparr>"

text \<open>
  The tag filter of the first effect:
  \<^verbatim>\<open>if (selectedTags.length > 0) result = result.filter(post => selectedTags.some(tag => post.tags.includes(tag)))\<close>.
\<close>

definition filterByTags :: "string list \<Rightarrow> 'a post_scheme list \<Rightarrow> 'a post_scheme list" where
  "filterByTags sel result =
     (if length sel > 0
      then filter (\<lambda>post. list_ex (\<lambda>t. t \<in> set (tags post)) sel) result
      else result)"

text \<open>
  The comparator of the date sort:
  \<^verbatim>\<open>sortOrder === 'newest' ? dateB - dateA : dateA - dateB\<close>.
\<close>

definition byDate ::
  "js_host \<Rightarrow> sort_order \<Rightarrow> 'a post_scheme \<Rightarrow> 'a post_scheme \<Rightarrow> int option" where
  "byDate host ord a b =
     (let dateA = getTime host (date_created a);
          dateB = getTime host (date_created b)
      in if ord = newest then js_sub dateB dateA else js_sub dateA dateB)"

text \<open>
  The first effect (dependencies \<^verbatim>\<open>blogPosts\<close>, \<^verbatim>\<open>selectedTags\<close>, \<^verbatim>\<open>sortOrder\<close>):
  filter a copy of \<^verbatim>\<open>blogPosts\<close>, sort it, and set \<^verbatim>\<open>filteredPosts\<close>,
  \<^verbatim>\<open>totalPages\<close> and \<^verbatim>\<open>currentPage\<close>.
\<close>

definition applyFiltersAndSorting ::
  "js_host \<Rightarrow> 'a post_scheme listing \<Rightarrow> 'a post_scheme listing" where
  "applyFiltersAndSorting host s =
     (let result = Array_sort (byDate host (sortOrder s))
                     (filterByTags (selectedTags s) (blogPosts s))
      in s\<lparr>filteredPosts := result,
           totalPages := Math_ceil (of_nat (length result) / of_int POSTS_PER_PAGE),
           currentPage := 1\<rparr>)"

text \<open>The second effect (dependencies \<^verbatim>\<open>currentPage\<close>, \<^verbatim>\<open>filteredPosts\<close>).\<close>

definition updateDisplayedPosts :: "'p listing \<Rightarrow> 'p listing" where
  "updateDisplayedPosts s =
     (let startIndex = (currentPage s - 1) * POSTS_PER_PAGE;
          endIndex = startIndex + POSTS_PER_PAGE
      in s\<lparr>displayedPosts := slice (filteredPosts s) startIndex endIndex\<rparr>)"

definition toggleTag :: "string \<Rightarrow> 'p listing \<Rightarrow> 'p listing" where
  "toggleTag tg s =
     (if tg \<in> set (selectedTags s)
      then s\<lparr>selectedTags := filter (\<lambda>t. t \<noteq> tg) (selectedTags s)\<rparr>
      else s\<lparr>selectedTags := selectedTags s @ [tg]\<rparr>)"

definition clearTags :: "'p listing \<Rightarrow> 'p listing" where
  "clearTags s = s\<lparr>selectedTags := []\<rparr>"

definition toggleSortOrder :: "'p listing \<Rightarrow> 'p listing" where
  "toggleSortOrder s = s\<lparr>sortOrder := (if sortOrder s = newest then oldest else newest)\<rparr>"

definition goToPage :: "int \<Rightarrow> 'p listing \<Rightarrow> 'p listing" where
  "goToPage page s =
     (if page \<ge> 1 \<and> page \<le> totalPages s
      then s\<lparr>currentPage := page, scrollToTop := Suc (scrollToTop s)\<rparr>
      else s)"

text \<open>
  \<^verbatim>\<open>loadEvents\<close>: await the aggregator and store the projection of its items in
  \<^verbatim>\<open>blogPosts\<close>. The aggregator never throws, so the \<^verbatim>\<open>catch\<close> of \<^verbatim>\<open>loadEvents\<close>
  has nothing to catch.
\<close>

definition loadEvents ::
  "'e + 'a event_post_scheme list \<Rightarrow> 'e + join_row list \<Rightarrow> 'e + tag_row list \<Rightarrow> 'e console
     \<Rightarrow> event_post listing \<Rightarrow> event_post listing \<times> 'e console" where
  "loadEvents r1 r2 r3 con s =
     (case fetchEventsWithTags r1 r2 r3 con of
        (data, con') \<Rightarrow>
          (s\<lparr>blogPosts := map (\<lambda>item. \<lparr>item_id = item_id item, slug = slug item, title = title item,
                 image_ref = image_ref item, date_created = date_created item, tags = tags item,
                 time = time item, location = location item, end_time = end_time item\<rparr>) data\<rparr>,
           con'))"

text \<open>
  The states the component can be in: the initial one, and those reached by a
  handler, by a load of \<^verbatim>\<open>blogPosts\<close> or by a run of an effect.
\<close>

inductive reachable :: "js_host \<Rightarrow> 'a post_scheme listing \<Rightarrow> bool" for host :: js_host where
  r_init: "reachable host initial"
| r_load: "reachable host s \<Longrightarrow> reachable host (s\<lparr>blogPosts := ps\<rparr>)"
| r_dropdown: "reachable host s \<Longrightarrow> reachable host (s\<lparr>isTagDropdownOpen := b\<rparr>)"
| r_toggleTag: "reachable host s \<Longrightarrow> reachable host (toggleTag tg s)"
| r_clearTags: "reachable host s \<Longrightarrow> reachable host (clearTags s)"
| r_toggleSortOrder: "reachable host s \<Longrightarrow> reachable host (toggleSortOrder s)"
| r_goToPage: "reachable host s \<Longrightarrow> reachable host (goToPage page s)"
| r_filter: "reachable host s \<Longrightarrow> reachable host (applyFiltersAndSorting host s)"
| r_display: "reachable host s \<Longrightarrow> reachable host (updateDisplayedPosts s)"

section \<open>Example data\<close>

text \<open>Concrete inputs on which the statements below are evaluated.\<close>

definition example_post :: "int \<Rightarrow> string \<Rightarrow> string list \<Rightarrow> post" where
  "example_post i d ts =
     \<lparr>item_id = i, slug = [], title = [], image_ref = [], date_created = d, tags = ts\<rparr>"

definition three_dates :: "post list" where
  "three_dates = map (\<lambda>d. example_post 0 d []) [''2024-01-01'', ''2024-06-01'', ''2023-12-31'']"

definition three_local_times :: "post list" where
  "three_local_times =
     map (\<lambda>d. example_post 0 d [])
       [''2024-03-01T09:00:00'', ''2024-03-01T12:30:00'', ''2024-02-29T23:59:59'']"

definition utc_host :: js_host where
  "utc_host = \<lparr>LocalTZA = (\<lambda>t. 0), legacy_parse = (\<lambda>s. None)\<rparr>"

definition east_host :: js_host where
  "east_host = \<lparr>LocalTZA = (\<lambda>t. 7200000), legacy_parse = (\<lambda>s. None)\<rparr>"

definition fourteen_posts :: "post list" where
  "fourteen_posts =
     map (\<lambda>i. example_post i ''2024-01-01'' []) [0, 1, 2, 3, 4, 5, 6, 7, 8, 9, 10, 11, 12, 13]"

definition fair :: event_post where
  "fair = \<lparr>item_id = 1, slug = ''fair'', title = ''Fair'', image_ref = ''fair.png'',
     date_created = ''2024-06-01'', tags = [],
     time = ''2024-07-01T10:00:00Z'', location = ''Park'', end_time = ''2024-07-01T12:00:00Z''\<rparr>"

definition example_tags :: "tag_row list" where
  "example_tags = [\<lparr>tag_id = 1, tag = ''music''\<rparr>, \<lparr>tag_id = 2, tag = []\<rparr>]"

definition example_joins :: "join_row list" where
  "example_joins = [\<lparr>content_id = 7, tags_id = 1\<rparr>, \<lparr>content_id = 7, tags_id = 2\<rparr>,
     \<lparr>content_id = 7, tags_id = 9\<rparr>, \<lparr>content_id = 8, tags_id = 1\<rparr>]"

section \<open>Auxiliary facts\<close>

lemma Math_ceil_pages: "Math_ceil (of_nat n / of_int POSTS_PER_PAGE) = (int n + 11) div 12"
  unfolding Math_ceil_def POSTS_PER_PAGE_def by simp linarith

subsection \<open>The tag dictionary\<close>

lemma fold_tagMap_Some:
  "fold (\<lambda>t acc. acc(tag_id t \<mapsto> tag t)) tgs m i = Some l
     \<Longrightarrow> m i = Some l \<or> (\<exists>t \<in> set tgs. tag_id t = i \<and> tag t = l)"
  by (induction tgs arbitrary: m) (fastforce split: if_splits)+

lemma tagMap_Some: "tagMap tgs i = Some l \<Longrightarrow> \<exists>t \<in> set tgs. tag_id t = i \<and> tag t = l"
  using fold_tagMap_Some [of tgs Map.empty i l] by (simp add: tagMap_def)

lemma fold_tagMap_dom:
  "dom (fold (\<lambda>t acc. acc(tag_id t \<mapsto> tag t)) tgs m) = dom m \<union> tag_id ` set tgs"
  by (induction tgs arbitrary: m) auto

lemma dom_tagMap: "dom (tagMap tgs) = tag_id ` set tgs"
  by (simp add: tagMap_def fold_tagMap_dom)

lemma or_empty_nonempty: "or_empty v \<noteq> [] \<Longrightarrow> v = Some (or_empty v)"
  by (cases v) (auto simp: or_empty_def)

lemma relatedTags_labels:
  assumes "l \<in> set (filter Boolean_str (relatedTags joins (tagMap tgs) i))"
  shows "l \<noteq> [] \<and> l \<in> tag ` set tgs"
proof -
  from assms have ne: "l \<noteq> []" by (simp add: Boolean_str_def)
  from assms obtain jr :: join_row where "l = or_empty (tagMap tgs (tags_id jr))"
    by (auto simp: relatedTags_def)
  with ne have "tagMap tgs (tags_id jr) = Some l"
    using or_empty_nonempty by metis
  then have "\<exists>t \<in> set tgs. tag_id t = tags_id jr \<and> tag t = l" by (rule tagMap_Some)
  with ne show ?thesis by auto
qed

lemma relatedTags_filter_resolvable:
  "filter Boolean_str (relatedTags (filter (\<lambda>jr. or_empty (tm (tags_id jr)) \<noteq> []) joins) tm i)
     = filter Boolean_str (relatedTags joins tm i)"
  by (induction joins) (auto simp: relatedTags_def Boolean_str_def)

lemma eventsWithTags_tags:
  "item \<in> set (eventsWithTags items joins tgs) \<Longrightarrow> set (tags item) \<subseteq> tag ` set tgs - {[]}"
  using relatedTags_labels by (fastforce simp: eventsWithTags_def Let_def)

lemma fetchWithTags_ok:
  "fetchWithTags msg (Inr items) (Inr joins) (Inr tgs) con = (eventsWithTags items joins tgs, con)"
  by (simp add: fetchWithTags_def try_body_def Promise_all3_def)

subsection \<open>The sort\<close>

lemma mset_sort_insert: "mset (sort_insert f x ys) = add_mset x (mset ys)"
  by (induction ys) auto

lemma mset_Array_sort: "mset (Array_sort f xs) = mset xs"
  by (induction xs) (auto simp: Array_sort_def mset_sort_insert)

lemma set_Array_sort: "set (Array_sort f xs) = set xs"
  using mset_Array_sort [of f xs] by (metis set_mset_mset)

lemma length_Array_sort: "length (Array_sort f xs) = length xs"
  using mset_Array_sort [of f xs] by (metis size_mset)

lemma set_sort_insert: "set (sort_insert f x ys) = insert x (set ys)"
  using mset_sort_insert [of f x ys] by (metis set_mset_mset set_mset_add_mset_insert)

text \<open>
  Where the comparator is the difference of an integer key, inserting into a list
  that descends in the key gives a list that descends in the key.
\<close>

lemma sort_insert_sorted:
  assumes "\<And>a b. a \<in> set (x # ys) \<Longrightarrow> b \<in> set (x # ys) \<Longrightarrow> SortCompare f a b = k b - k a"
    and "sorted_wrt (\<lambda>a b. k b \<le> k a) ys"
  shows "sorted_wrt (\<lambda>a b. k b \<le> (k a :: int)) (sort_insert f x ys)"
  using assms
proof (induction ys)
  case Nil
  show ?case by simp
next
  case (Cons y ys)
  have c: "SortCompare f x y = k y - k x" using Cons.prems(1) by simp
  show ?case
  proof (cases "SortCompare f x y \<le> 0")
    case True
    with c have "k y \<le> k x" by simp
    with Cons.prems(2) True show ?thesis by fastforce
  next
    case False
    with c have "k x \<le> k y" by simp
    moreover have "sorted_wrt (\<lambda>a b. k b \<le> k a) (sort_insert f x ys)"
    proof (rule Cons.IH)
      fix a b
      assume "a \<in> set (x # ys)" "b \<in> set (x # ys)"
      then have "a \<in> set (x # y # ys)" "b \<in> set (x # y # ys)" by auto
      then show "SortCompare f a b = k b - k a" by (rule Cons.prems(1))
    next
      show "sorted_wrt (\<lambda>a b. k b \<le> k a) ys" using Cons.prems(2) by simp
    qed
    ultimately show ?thesis using Cons.prems(2) False by (auto simp: set_sort_insert)
  qed
qed

lemma Array_sort_sorted:
  assumes "\<And>a b. a \<in> set xs \<Longrightarrow> b \<in> set xs \<Longrightarrow> SortCompare f a b = k b - k a"
  shows "sorted_wrt (\<lambda>a b. k b \<le> (k a :: int)) (Array_sort f xs)"
  using assms
proof (induction xs)
  case Nil
  show ?case by (simp add: Array_sort_def)
next
  case (Cons x xs)
  have ih: "sorted_wrt (\<lambda>a b. k b \<le> k a) (Array_sort f xs)"
    using Cons by simp
  have "sorted_wrt (\<lambda>a b. k b \<le> k a) (sort_insert f x (Array_sort f xs))"
  proof (rule sort_insert_sorted [OF _ ih])
    fix a b
    assume "a \<in> set (x # Array_sort f xs)" "b \<in> set (x # Array_sort f xs)"
    then show "SortCompare f a b = k b - k a"
      using Cons.prems by (simp add: set_Array_sort)
  qed
  then show ?case by (simp add: Array_sort_def)
qed

lemma byDate_parsed:
  assumes "getTime host (date_created a) = Some ta" "getTime host (date_created b) = Some tb"
  shows "SortCompare (byDate host ord) a b = (if ord = newest then tb - ta else ta - tb)"
  using assms by (simp add: SortCompare_def byDate_def js_sub_def Let_def)

lemma sorted_byDate:
  assumes "\<forall>p \<in> set xs. getTime host (date_created p) \<noteq> None"
  shows "sorted_wrt (\<lambda>a b. \<exists>ta tb. getTime host (date_created a) = Some ta
            \<and> getTime host (date_created b) = Some tb
            \<and> (if ord = newest then tb \<le> ta else ta \<le> tb)) (Array_sort (byDate host ord) xs)"
proof -
  define k where
    "k = (\<lambda>p :: 'a post_scheme. (if ord = newest then 1 else - 1) * the (getTime host (date_created p)))"
  have parsed: "getTime host (date_created p) = Some (the (getTime host (date_created p)))"
    if "p \<in> set xs" for p
    using assms that by auto
  have "SortCompare (byDate host ord) a b = k b - k a" if "a \<in> set xs" "b \<in> set xs" for a b
    using byDate_parsed [OF parsed [OF that(1)] parsed [OF that(2)], of ord] by (simp add: k_def)
  then have s: "sorted_wrt (\<lambda>a b. k b \<le> k a) (Array_sort (byDate host ord) xs)"
    by (rule Array_sort_sorted)
  from s show ?thesis
  proof (rule sorted_wrt_mono_rel [rotated])
    fix a b
    assume "a \<in> set (Array_sort (byDate host ord) xs)" "b \<in> set (Array_sort (byDate host ord) xs)"
      and "k b \<le> k a"
    then have h: "a \<in> set xs \<and> b \<in> set xs \<and> k b \<le> k a"
      by (simp add: set_Array_sort)
    from h parsed have "getTime host (date_created a) = Some (the (getTime host (date_created a)))"
      "getTime host (date_created b) = Some (the (getTime host (date_created b)))" by auto
    moreover from h have "if ord = newest
       then the (getTime host (date_created b)) \<le> the (getTime host (date_created a))
       else the (getTime host (date_created a)) \<le> the (getTime host (date_created b))"
      by (simp add: k_def split: if_splits)
    ultimately show "\<exists>ta tb. getTime host (date_created a) = Some ta
            \<and> getTime host (date_created b) = Some tb
            \<and> (if ord = newest then tb \<le> ta else ta \<le> tb)" by blast
  qed
qed

text \<open>Strings with a designator, and date-only strings, are read alike on every host.\<close>

lemma parse_iso_examples:
  "parse_iso tza ''2024-01-01'' = Some 1704067200000"
  "parse_iso tza ''2024-06-01'' = Some 1717200000000"
  "parse_iso tza ''2023-12-31'' = Some 1703980800000"
  "parse_iso tza ''2024-07-01T10:00:00Z'' = Some 1719828000000"
  "parse_iso tza ''2024-07-01T12:00:00Z'' = Some 1719835200000"
  by code_simp+

lemma getTime_date_only:
  "getTime host ''2024-01-01'' = Some 1704067200000"
  "getTime host ''2024-06-01'' = Some 1717200000000"
  "getTime host ''2023-12-31'' = Some 1703980800000"
  by (simp_all add: getTime_def new_Date_def Date_parse_def parse_iso_examples TimeClip_def)

lemma new_Date_fair:
  "new_Date host ''2024-07-01T10:00:00Z'' = Some 1719828000000"
  "new_Date host ''2024-07-01T12:00:00Z'' = Some 1719835200000"
  by (simp_all add: new_Date_def Date_parse_def parse_iso_examples TimeClip_def)

lemma three_dates_parse:
  "map (\<lambda>p. getTime host (date_created p)) three_dates
     = [Some 1704067200000, Some 1717200000000, Some 1703980800000]"
  by (simp add: three_dates_def example_post_def getTime_date_only)

lemma three_dates_newest:
  "map date_created (filteredPosts (applyFiltersAndSorting host (initial\<lparr>blogPosts := three_dates\<rparr>)))
     = [''2024-06-01'', ''2024-01-01'', ''2023-12-31'']"
  by (simp add: applyFiltersAndSorting_def initial_def filterByTags_def Array_sort_def
        SortCompare_def byDate_def js_sub_def three_dates_def example_post_def getTime_date_only)

lemma three_dates_oldest:
  "map date_created (filteredPosts (applyFiltersAndSorting host
       (initial\<lparr>blogPosts := three_dates, sortOrder := oldest\<rparr>)))
     = [''2023-12-31'', ''2024-01-01'', ''2024-06-01'']"
  by (simp add: applyFiltersAndSorting_def initial_def filterByTags_def Array_sort_def
        SortCompare_def byDate_def js_sub_def three_dates_def example_post_def getTime_date_only)

lemma three_local_times_parse:
  "map (\<lambda>p. getTime east_host (date_created p)) three_local_times
     = [Some 1709276400000, Some 1709289000000, Some 1709243999000]"
  by code_simp

lemma three_local_times_newest:
  "map date_created (filteredPosts (applyFiltersAndSorting east_host
       (initial\<lparr>blogPosts := three_local_times\<rparr>)))
     = [''2024-03-01T12:30:00'', ''2024-03-01T09:00:00'', ''2024-02-29T23:59:59'']"
  by code_simp

subsection \<open>The tag filter\<close>

lemma filterByTags_eq:
  "filterByTags sel posts = filter (\<lambda>p. sel = [] \<or> set sel \<inter> set (tags p) \<noteq> {}) posts"
  by (auto simp: filterByTags_def list_ex_iff intro!: filter_cong)

lemma filterByTags_subset: "set (filterByTags sel xs) \<subseteq> set xs"
  by (auto simp: filterByTags_def)

subsection \<open>Slices\<close>

lemma slice_window:
  assumes "0 \<le> a" "a \<le> b"
  shows "slice xs a b = take (nat (b - a)) (drop (nat a) xs)"
proof (cases "a \<le> int (length xs)")
  case True
  show ?thesis
  proof (cases "b \<le> int (length xs)")
    case True
    with assms \<open>a \<le> int (length xs)\<close> show ?thesis by (simp add: slice_def Let_def min_def)
  next
    case False
    with assms \<open>a \<le> int (length xs)\<close> show ?thesis by (simp add: slice_def Let_def min_def)
  qed
next
  case False
  with assms show ?thesis by (simp add: slice_def Let_def min_def)
qed

lemma length_slice: "0 \<le> c \<Longrightarrow> length (slice xs a (a + c)) \<le> nat c"
  by (auto simp: slice_def Let_def min_def max_def)

lemma concat_windows: "concat (map (\<lambda>k. take c (drop (c * k) xs)) [0..<m]) = take (c * m) xs"
proof (induction m)
  case 0
  show ?case by simp
next
  case (Suc m)
  have "take (c * m) xs @ take c (drop (c * m) xs) = take (c * m + c) xs"
    by (simp add: take_add)
  with Suc show ?case by (simp add: add.commute)
qed

lemma displayed_window:
  assumes "1 \<le> currentPage s"
  shows "displayedPosts (updateDisplayedPosts s)
     = take 12 (drop (12 * nat (currentPage s - 1)) (filteredPosts s))"
proof -
  have "slice (filteredPosts s) ((currentPage s - 1) * 12) ((currentPage s - 1) * 12 + 12)
      = take (nat 12) (drop (nat ((currentPage s - 1) * 12)) (filteredPosts s))"
    using slice_window [of "(currentPage s - 1) * 12" "(currentPage s - 1) * 12 + 12" "filteredPosts s"]
      assms
    by simp
  moreover have "nat ((currentPage s - 1) * 12) = 12 * nat (currentPage s - 1)"
    using assms by (simp add: nat_mult_distrib)
  ultimately show ?thesis
    by (simp add: updateDisplayedPosts_def Let_def POSTS_PER_PAGE_def)
qed

subsection \<open>The page number in a reachable host state\<close>

lemma reachable_currentPage: "reachable host s \<Longrightarrow> 1 \<le> currentPage s"
  by (induction rule: reachable.induct)
     (simp_all add: initial_def toggleTag_def clearTags_def toggleSortOrder_def goToPage_def
        applyFiltersAndSorting_def updateDisplayedPosts_def Let_def)

subsection \<open>A failed load\<close>

text \<open>When a fetch fails, \<^verbatim>\<open>loadEvents\<close> stores the empty collection: the page shows no items.\<close>

lemma loadEvents_failure:
  assumes "isl r1 \<or> isl r2 \<or> isl r3"
  shows "blogPosts (fst (loadEvents r1 r2 r3 con s)) = []"
  using assms
  by (cases r1; cases r2; cases r3)
     (simp_all add: loadEvents_def fetchEventsWithTags_def fetchWithTags_def try_body_def
        Promise_all3_def)

subsection \<open>The calendar link of the example event\<close>

lemma formatDate_values:
  "formatDate (Some 1719828000000) = Inr ''20240701T100000Z''"
  "formatDate (Some 1719835200000) = Inr ''20240701T120000Z''"
  by code_simp+

lemma formatDate_start:
  "formatDate (new_Date host ''2024-07-01T10:00:00Z'') = Inr ''20240701T100000Z''"
  by (simp only: new_Date_fair formatDate_values)

lemma formatDate_end:
  "formatDate (new_Date host ''2024-07-01T12:00:00Z'') = Inr ''20240701T120000Z''"
  by (simp only: new_Date_fair formatDate_values)

lemma fair_params:
  "URLSearchParams_toString
     [(''action'', ''TEMPLATE''), (''text'', ''Fair''),
      (''details'', ''Fair'' @ '' - Learn more at our website.''),
      (''location'', ''Park''),
      (''dates'', ''20240701T100000Z'' @ ''/'' @ ''20240701T120000Z'')]
   = ''action=TEMPLATE&text=Fair&details=Fair+-+Learn+more+at+our+website.&location=Park&dates=20240701T100000Z%2F20240701T120000Z''"
  by code_simp

lemma fair_get:
  "searchParams_get ''https://calendar.google.com/calendar/render?action=TEMPLATE&text=Fair&details=Fair+-+Learn+more+at+our+website.&location=Park&dates=20240701T100000Z%2F20240701T120000Z'' ''dates''
     = Some ''20240701T100000Z/20240701T120000Z''
   \<and> searchParams_get ''https://calendar.google.com/calendar/render?action=TEMPLATE&text=Fair&details=Fair+-+Learn+more+at+our+website.&location=Park&dates=20240701T100000Z%2F20240701T120000Z'' ''text''
     = Some ''Fair''"
  by code_simp

section \<open>Pagination: the number of pages\<close>

text \<open>
  C1, as stated: after the first effect has run, \<open>totalPages\<close> is
  \<open>max 1 (ceil (filteredCount / 12))\<close>, so at least 1 even for an empty filtered
  collection. The effect stores \<^verbatim>\<open>Math.ceil(result.length / POSTS_PER_PAGE)\<close> as it
  is: on the initial state, whose \<open>blogPosts\<close> is empty, the filtered collection is
  empty and \<open>totalPages\<close> becomes 0.
\<close>

theorem totalPages_min_one_counterexample:
  "filteredPosts (applyFiltersAndSorting utc_host (initial :: post listing)) = []
   \<and> totalPages (applyFiltersAndSorting utc_host (initial :: post listing)) = 0
   \<and> totalPages (applyFiltersAndSorting utc_host (initial :: post listing))
       \<noteq> max 1 \<lceil>of_nat (length (filteredPosts (applyFiltersAndSorting utc_host (initial :: post listing))))
                  / (12 :: rat)\<rceil>"
  by (simp add: applyFiltersAndSorting_def initial_def filterByTags_def Array_sort_def Math_ceil_def)

text \<open>
  C1, amended: after the first effect has run, \<open>totalPages\<close> is
  \<open>ceil (filteredCount / 12)\<close>; it is 0 when the filtered collection is empty and
  \<open>max 1 (ceil (filteredCount / 12))\<close>, hence at least 1, when it is not.
\<close>

theorem totalPages_ceil:
  "totalPages (applyFiltersAndSorting host s)
     = \<lceil>of_nat (length (filteredPosts (applyFiltersAndSorting host s))) / (12 :: rat)\<rceil>
   \<and> totalPages (applyFiltersAndSorting host s)
     = (if filteredPosts (applyFiltersAndSorting host s) = [] then 0
        else max 1 \<lceil>of_nat (length (filteredPosts (applyFiltersAndSorting host s))) / (12 :: rat)\<rceil>)"
proof -
  let ?r = "filteredPosts (applyFiltersAndSorting host s)"
  have tp: "totalPages (applyFiltersAndSorting host s) = \<lceil>of_nat (length ?r) / (12 :: rat)\<rceil>"
    by (simp add: applyFiltersAndSorting_def Let_def Math_ceil_def POSTS_PER_PAGE_def)
  have c: "\<lceil>of_nat (length ?r) / (12 :: rat)\<rceil> = (int (length ?r) + 11) div 12"
    using Math_ceil_pages [of "length ?r"] by (simp add: Math_ceil_def POSTS_PER_PAGE_def)
  have "?r \<noteq> [] \<Longrightarrow> 1 \<le> (int (length ?r) + 11) div 12"
    by (cases ?r) simp_all
  with tp c show ?thesis by auto
qed

theorem totalPages_ceil_witness:
  "filteredPosts (applyFiltersAndSorting utc_host (initial\<lparr>blogPosts := fourteen_posts\<rparr>)) \<noteq> []
   \<and> totalPages (applyFiltersAndSorting utc_host (initial\<lparr>blogPosts := fourteen_posts\<rparr>)) = 2"
proof -
  have n: "length (filteredPosts (applyFiltersAndSorting utc_host (initial\<lparr>blogPosts := fourteen_posts\<rparr>))) = 14"
    by (simp add: applyFiltersAndSorting_def initial_def filterByTags_def length_Array_sort
          fourteen_posts_def)
  have "\<lceil>14 / (12 :: rat)\<rceil> = 2" by (simp add: ceiling_eq_iff)
  with totalPages_ceil [where host = utc_host and s = "initial\<lparr>blogPosts := fourteen_posts\<rparr>"] n
  show ?thesis
    by auto
qed

section \<open>Toggling a tag twice\<close>

text \<open>
  C2, as stated: for every list \<open>selectedTags\<close> and every tag \<open>x\<close>, toggling \<open>x\<close>
  twice gives the original list back. Removing a selected tag and adding it again
  appends it at the end: from \<open>[a, b]\<close>, toggling \<open>a\<close> twice gives \<open>[b, a]\<close>.
\<close>

theorem toggleTag_twice_counterexample:
  "selectedTags (toggleTag ''a'' (toggleTag ''a'' ((initial :: post listing)\<lparr>selectedTags := [''a'', ''b'']\<rparr>)))
     = [''b'', ''a'']
   \<and> selectedTags (toggleTag ''a'' (toggleTag ''a'' ((initial :: post listing)\<lparr>selectedTags := [''a'', ''b'']\<rparr>)))
     \<noteq> selectedTags ((initial :: post listing)\<lparr>selectedTags := [''a'', ''b'']\<rparr>)"
  by (simp add: toggleTag_def)

text \<open>
  C2, amended: toggling \<open>x\<close> twice gives back the same set of selected tags. The
  list itself is the original one when \<open>x\<close> was not selected; when \<open>x\<close> was
  selected, it is the original list with \<open>x\<close> moved to the end. The same holds of
  \<open>selectedTags\<close> when the two effects run after each toggle, as they do in the
  component.
\<close>

theorem toggleTag_twice:
  "set (selectedTags (toggleTag x (toggleTag x s))) = set (selectedTags s)
   \<and> selectedTags (toggleTag x (toggleTag x s))
       = (if x \<in> set (selectedTags s)
          then filter (\<lambda>t. t \<noteq> x) (selectedTags s) @ [x]
          else selectedTags s)
   \<and> selectedTags (updateDisplayedPosts (applyFiltersAndSorting host
        (toggleTag x (updateDisplayedPosts (applyFiltersAndSorting host (toggleTag x s))))))
       = selectedTags (toggleTag x (toggleTag x s))"
proof -
  have unselected: "x \<notin> set xs \<Longrightarrow> filter (\<lambda>t. t \<noteq> x) xs = xs" for xs :: "string list"
    by (induction xs) auto
  have effects: "selectedTags (updateDisplayedPosts (applyFiltersAndSorting host u)) = selectedTags u"
    for u :: "'a post_scheme listing"
    by (simp add: updateDisplayedPosts_def applyFiltersAndSorting_def Let_def)
  have toggle: "selectedTags (toggleTag x u)
      = (if x \<in> set (selectedTags u) then filter (\<lambda>t. t \<noteq> x) (selectedTags u)
         else selectedTags u @ [x])"
    for u :: "'a post_scheme listing"
    by (simp add: toggleTag_def)
  show ?thesis
    using unselected [of "selectedTags s"] by (auto simp: effects toggle)
qed

theorem toggleTag_twice_witness:
  "''c'' \<notin> set (selectedTags ((initial :: post listing)\<lparr>selectedTags := [''a'', ''b'']\<rparr>))
   \<and> selectedTags (toggleTag ''c'' (toggleTag ''c''
         ((initial :: post listing)\<lparr>selectedTags := [''a'', ''b''], currentPage := 2\<rparr>)))
       = [''a'', ''b'']
   \<and> selectedTags (updateDisplayedPosts (applyFiltersAndSorting utc_host
        (toggleTag ''a'' (updateDisplayedPosts (applyFiltersAndSorting utc_host (toggleTag ''a''
           ((initial :: post listing)\<lparr>selectedTags := [''a'', ''b''], currentPage := 2\<rparr>)))))))
       = [''b'', ''a'']"
  using toggleTag_twice [where x = "''c''" and host = utc_host
      and s = "(initial :: post listing)\<lparr>selectedTags := [''a'', ''b''], currentPage := 2\<rparr>"]
    toggleTag_twice [where x = "''a''" and host = utc_host
      and s = "(initial :: post listing)\<lparr>selectedTags := [''a'', ''b''], currentPage := 2\<rparr>"]
  by simp

section \<open>The tag-join aggregator\<close>

text \<open>
  C3: when the three collections have been fetched, the aggregator returns the joined
  items and writes nothing to the console; every label in the \<open>tags\<close> of every
  returned item is a non-empty label of the tag dictionary; and the join rows whose
  tag id is not in the dictionary, or resolves to the empty label, contribute
  nothing: the result is the same as without them. This holds for
  \<^verbatim>\<open>fetchEventsWithTags\<close> and \<^verbatim>\<open>fetchArticlesWithTags\<close>, which are
  \<open>fetchWithTags\<close> with their message.
\<close>

theorem aggregator_tags_resolvable:
  "fetchWithTags msg (Inr items) (Inr joins) (Inr tgs) con = (eventsWithTags items joins tgs, con)
   \<and> (\<forall>item \<in> set (eventsWithTags items joins tgs). set (tags item) \<subseteq> tag ` set tgs - {[]})
   \<and> eventsWithTags items
        (filter (\<lambda>jr. tags_id jr \<in> tag_id ` set tgs \<and> or_empty (tagMap tgs (tags_id jr)) \<noteq> [])
           joins) tgs
      = eventsWithTags items joins tgs"
proof -
  have eq: "(\<lambda>jr :: join_row. tags_id jr \<in> tag_id ` set tgs \<and> or_empty (tagMap tgs (tags_id jr)) \<noteq> [])
      = (\<lambda>jr. or_empty (tagMap tgs (tags_id jr)) \<noteq> [])"
  proof
    fix jr :: join_row
    show "(tags_id jr \<in> tag_id ` set tgs \<and> or_empty (tagMap tgs (tags_id jr)) \<noteq> [])
      = (or_empty (tagMap tgs (tags_id jr)) \<noteq> [])"
      using dom_tagMap [of tgs] or_empty_nonempty [of "tagMap tgs (tags_id jr)"] by blast
  qed
  have r: "eventsWithTags items (filter (\<lambda>jr. or_empty (tagMap tgs (tags_id jr)) \<noteq> []) joins) tgs
      = eventsWithTags items joins tgs"
    by (simp add: eventsWithTags_def Let_def relatedTags_filter_resolvable)
  have "eventsWithTags items
        (filter (\<lambda>jr. tags_id jr \<in> tag_id ` set tgs \<and> or_empty (tagMap tgs (tags_id jr)) \<noteq> [])
           joins) tgs
      = eventsWithTags items joins tgs"
    unfolding eq by (rule r)
  then show ?thesis
    using fetchWithTags_ok eventsWithTags_tags by blast
qed

theorem aggregator_tags_resolvable_witness:
  "eventsWithTags [example_post 7 ''2024-01-01'' [''stale'']] example_joins example_tags
     = [example_post 7 ''2024-01-01'' [''music'']]
   \<and> example_post 7 ''2024-01-01'' [''music'']
       \<in> set (eventsWithTags [example_post 7 ''2024-01-01'' [''stale'']] example_joins example_tags)
   \<and> set (tags (example_post 7 ''2024-01-01'' [''music''])) \<subseteq> tag ` set example_tags - {[]}"
proof -
  have e: "eventsWithTags [example_post 7 ''2024-01-01'' [''stale'']] example_joins example_tags
     = [example_post 7 ''2024-01-01'' [''music'']]"
    by code_simp
  have "\<forall>item \<in> set (eventsWithTags [example_post 7 ''2024-01-01'' [''stale'']] example_joins example_tags).
          set (tags item) \<subseteq> tag ` set example_tags - {[]}"
    using aggregator_tags_resolvable
      [of "[]" "[example_post 7 ''2024-01-01'' [''stale'']]" example_joins example_tags "[]"]
    by blast
  with e show ?thesis by simp
qed

text \<open>
  C4: the joined collection has exactly as many items as the primary collection,
  whatever the join rows and the tag dictionary are (empty ones included), and so has
  the value the aggregator returns when the three fetches succeed.
\<close>

theorem aggregator_length:
  "length (eventsWithTags items joins tgs) = length items
   \<and> length (fst (fetchWithTags msg (Inr items) (Inr joins) (Inr tgs) con)) = length items
   \<and> length (eventsWithTags items [] []) = length items"
  by (simp add: fetchWithTags_ok) (simp add: eventsWithTags_def Let_def)

text \<open>
  C5: if one of the three fetches fails, the aggregator returns the empty collection
  and appends one entry to the console, its message with the error of a failed
  fetch; the error does not reach the caller, who receives a value.
\<close>

theorem aggregator_failure_empty_logged:
  assumes "isl r1 \<or> isl r2 \<or> isl r3"
  shows "\<exists>err. (r1 = Inl err \<or> r2 = Inl err \<or> r3 = Inl err)
           \<and> fetchWithTags msg r1 r2 r3 con = ([], con @ [(msg, err)])
           \<and> fetchEventsWithTags r1 r2 r3 con
               = ([], con @ [(''Error fetching events with tags:'', err)])
           \<and> fetchArticlesWithTags r1 r2 r3 con
               = ([], con @ [(''Error fetching articles with tags:'', err)])"
  using assms
  by (cases r1; cases r2; cases r3)
     (simp_all add: fetchEventsWithTags_def fetchArticlesWithTags_def fetchWithTags_def
        try_body_def Promise_all3_def)

theorem aggregator_failure_empty_logged_witness:
  "isl (Inl ''timeout'' :: string + join_row list)
   \<and> fetchEventsWithTags (Inr three_dates) (Inl ''timeout'') (Inr example_tags) []
       = ([], [(''Error fetching events with tags:'', ''timeout'')])"
  using aggregator_failure_empty_logged
    [of "Inr three_dates" "Inl ''timeout''" "Inr example_tags" "[]" "[]"]
  by auto

section \<open>The calendar link\<close>

text \<open>
  C6: the calendar-link generator is a pure function: it takes no state and returns
  none, and on one host two posts with the same \<open>time\<close>, \<open>end_time\<close>, \<open>title\<close>
  and \<open>location\<close> get the same result, whatever their other fields are. For an item
  with time \<^verbatim>\<open>2024-07-01T10:00:00Z\<close>, end time \<^verbatim>\<open>2024-07-01T12:00:00Z\<close>, title
  \<^verbatim>\<open>Fair\<close> and location \<^verbatim>\<open>Park\<close> it returns, on every host, a URL whose
  \<^verbatim>\<open>dates\<close> query parameter is \<^verbatim>\<open>20240701T100000Z/20240701T120000Z\<close> (the slash is
  written \<^verbatim>\<open>%2F\<close> in the URL) and whose \<^verbatim>\<open>text\<close> parameter is \<^verbatim>\<open>Fair\<close>.
\<close>

theorem calendar_url_fair:
  "(\<forall>(q :: 'b event_post_scheme) (r :: 'c event_post_scheme).
       time q = time r \<and> end_time q = end_time r \<and> title q = title r \<and> location q = location r
       \<longrightarrow> generateGoogleCalendarUrl host q = generateGoogleCalendarUrl host r)
   \<and> (time (p :: 'a event_post_scheme) = ''2024-07-01T10:00:00Z'' \<and> end_time p = ''2024-07-01T12:00:00Z''
        \<and> title p = ''Fair'' \<and> location p = ''Park''
       \<longrightarrow> generateGoogleCalendarUrl host p = Inr ''https://calendar.google.com/calendar/render?action=TEMPLATE&text=Fair&details=Fair+-+Learn+more+at+our+website.&location=Park&dates=20240701T100000Z%2F20240701T120000Z''
         \<and> (\<exists>url. generateGoogleCalendarUrl host p = Inr url
              \<and> searchParams_get url ''dates'' = Some ''20240701T100000Z/20240701T120000Z''
              \<and> searchParams_get url ''text'' = Some ''Fair''))"
proof -
  have pure: "generateGoogleCalendarUrl host q = generateGoogleCalendarUrl host r"
    if "time q = time r \<and> end_time q = end_time r \<and> title q = title r \<and> location q = location r"
    for q :: "'b event_post_scheme" and r :: "'c event_post_scheme"
  proof -
    from that have "time q = time r" "end_time q = end_time r" "title q = title r"
      "location q = location r" by simp_all
    then show ?thesis unfolding generateGoogleCalendarUrl_def by (simp only:)
  qed
  have url: "generateGoogleCalendarUrl host p = Inr ''https://calendar.google.com/calendar/render?action=TEMPLATE&text=Fair&details=Fair+-+Learn+more+at+our+website.&location=Park&dates=20240701T100000Z%2F20240701T120000Z''"
    if "time p = ''2024-07-01T10:00:00Z'' \<and> end_time p = ''2024-07-01T12:00:00Z''
        \<and> title p = ''Fair'' \<and> location p = ''Park''"
  proof -
    from that have f: "time p = ''2024-07-01T10:00:00Z''" "end_time p = ''2024-07-01T12:00:00Z''"
      "title p = ''Fair''" "location p = ''Park''" by simp_all
    show ?thesis
      unfolding generateGoogleCalendarUrl_def Let_def f formatDate_start formatDate_end
      using fair_params by simp
  qed
  show ?thesis
  proof (intro conjI allI impI)
    fix q :: "'b event_post_scheme" and r :: "'c event_post_scheme"
    assume "time q = time r \<and> end_time q = end_time r \<and> title q = title r \<and> location q = location r"
    then show "generateGoogleCalendarUrl host q = generateGoogleCalendarUrl host r" by (rule pure)
  next
    assume "time p = ''2024-07-01T10:00:00Z'' \<and> end_time p = ''2024-07-01T12:00:00Z''
        \<and> title p = ''Fair'' \<and> location p = ''Park''"
    then show "generateGoogleCalendarUrl host p = Inr ''https://calendar.google.com/calendar/render?action=TEMPLATE&text=Fair&details=Fair+-+Learn+more+at+our+website.&location=Park&dates=20240701T100000Z%2F20240701T120000Z''"
      by (rule url)
  next
    assume "time p = ''2024-07-01T10:00:00Z'' \<and> end_time p = ''2024-07-01T12:00:00Z''
        \<and> title p = ''Fair'' \<and> location p = ''Park''"
    then show "\<exists>url. generateGoogleCalendarUrl host p = Inr url
              \<and> searchParams_get url ''dates'' = Some ''20240701T100000Z/20240701T120000Z''
              \<and> searchParams_get url ''text'' = Some ''Fair''"
      using url fair_get by blast
  qed
qed

theorem calendar_url_fair_witness:
  "time fair = ''2024-07-01T10:00:00Z'' \<and> end_time fair = ''2024-07-01T12:00:00Z''
   \<and> title fair = ''Fair'' \<and> location fair = ''Park''
   \<and> generateGoogleCalendarUrl east_host fair = Inr ''https://calendar.google.com/calendar/render?action=TEMPLATE&text=Fair&details=Fair+-+Learn+more+at+our+website.&location=Park&dates=20240701T100000Z%2F20240701T120000Z''
   \<and> time (fair\<lparr>slug := ''other'', tags := [''music'']\<rparr>) = time fair
   \<and> generateGoogleCalendarUrl east_host (fair\<lparr>slug := ''other'', tags := [''music'']\<rparr>)
       = generateGoogleCalendarUrl east_host fair"
proof -
  have h: "time fair = ''2024-07-01T10:00:00Z'' \<and> end_time fair = ''2024-07-01T12:00:00Z''
    \<and> title fair = ''Fair'' \<and> location fair = ''Park''"
    by (simp add: fair_def)
  have g: "time (fair\<lparr>slug := ''other'', tags := [''music'']\<rparr>) = time fair
    \<and> end_time (fair\<lparr>slug := ''other'', tags := [''music'']\<rparr>) = end_time fair
    \<and> title (fair\<lparr>slug := ''other'', tags := [''music'']\<rparr>) = title fair
    \<and> location (fair\<lparr>slug := ''other'', tags := [''music'']\<rparr>) = location fair"
    by simp
  from calendar_url_fair [where host = east_host and p = fair] h g show ?thesis by blast
qed

section \<open>The tag filter\<close>

text \<open>
  C7: an item passes the tag filter if and only if no tag is selected or the item
  has at least one of the selected tags (any of them, not all of them). The filter
  keeps the passing items in their order, and the filtered collection that the first
  effect stores consists of exactly the passing items of \<open>blogPosts\<close>.
\<close>

theorem tag_filter_or:
  "filterByTags sel posts = filter (\<lambda>p. sel = [] \<or> set sel \<inter> set (tags p) \<noteq> {}) posts
   \<and> (p \<in> set (filterByTags sel posts)
        \<longleftrightarrow> p \<in> set posts \<and> (sel = [] \<or> (\<exists>t. t \<in> set sel \<and> t \<in> set (tags p))))
   \<and> (p \<in> set (filteredPosts (applyFiltersAndSorting host s))
        \<longleftrightarrow> p \<in> set (blogPosts s)
            \<and> (selectedTags s = [] \<or> (\<exists>t. t \<in> set (selectedTags s) \<and> t \<in> set (tags p))))"
proof -
  have a: "filterByTags sel posts = filter (\<lambda>p. sel = [] \<or> set sel \<inter> set (tags p) \<noteq> {}) posts"
    for sel and posts :: "'a post_scheme list"
    by (rule filterByTags_eq)
  have b: "p \<in> set (filterByTags sel posts)
        \<longleftrightarrow> p \<in> set posts \<and> (sel = [] \<or> (\<exists>t. t \<in> set sel \<and> t \<in> set (tags p)))"
    for sel and posts :: "'a post_scheme list"
    unfolding a by auto
  have c: "set (filteredPosts (applyFiltersAndSorting host s))
      = set (filterByTags (selectedTags s) (blogPosts s))"
    by (simp add: applyFiltersAndSorting_def Let_def set_Array_sort)
  show ?thesis using a b c by blast
qed

theorem tag_filter_or_witness:
  "filterByTags [''art'', ''music'']
     [example_post 1 ''2024-01-01'' [''music'', ''food''], example_post 2 ''2024-01-02'' [''food''],
      example_post 3 ''2024-01-03'' []]
   = [example_post 1 ''2024-01-01'' [''music'', ''food'']]
   \<and> filterByTags []
     [example_post 1 ''2024-01-01'' [''music'', ''food''], example_post 2 ''2024-01-02'' [''food''],
      example_post 3 ''2024-01-03'' []]
   = [example_post 1 ''2024-01-01'' [''music'', ''food''], example_post 2 ''2024-01-02'' [''food''],
      example_post 3 ''2024-01-03'' []]"
  using tag_filter_or [of "[''art'', ''music'']"
      "[example_post 1 ''2024-01-01'' [''music'', ''food''], example_post 2 ''2024-01-02'' [''food''],
        example_post 3 ''2024-01-03'' []]"]
    tag_filter_or [of "[]"
      "[example_post 1 ''2024-01-01'' [''music'', ''food''], example_post 2 ''2024-01-02'' [''food''],
        example_post 3 ''2024-01-03'' []]"]
  by (simp add: example_post_def)

section \<open>The date sort\<close>

text \<open>
  C8: the filtered collection is sorted by the parsed \<open>date_created\<close> timestamps,
  compared as numbers: on every host, when every \<open>date_created\<close> parses there, each
  item's timestamp is at least that of every later item under \<open>newest\<close>, and at most
  that of every later item under \<open>oldest\<close>; the sort keeps the items, it only
  reorders them. In particular items created on 2024-01-01, 2024-06-01 and
  2023-12-31 come out as 2024-06-01, 2024-01-01, 2023-12-31 under \<open>newest\<close> and in
  the reverse order under \<open>oldest\<close>, on every host.
\<close>

theorem sort_by_date_created:
  "((\<forall>p \<in> set (blogPosts s). getTime host (date_created p) \<noteq> None) \<longrightarrow>
      sorted_wrt (\<lambda>a b. \<exists>ta tb. getTime host (date_created a) = Some ta
            \<and> getTime host (date_created b) = Some tb
            \<and> (if sortOrder s = newest then tb \<le> ta else ta \<le> tb))
        (filteredPosts (applyFiltersAndSorting host s)))
   \<and> mset (filteredPosts (applyFiltersAndSorting host s))
       = mset (filterByTags (selectedTags s) (blogPosts s))
   \<and> map date_created (filteredPosts (applyFiltersAndSorting host (initial\<lparr>blogPosts := three_dates\<rparr>)))
       = [''2024-06-01'', ''2024-01-01'', ''2023-12-31'']
   \<and> map date_created (filteredPosts (applyFiltersAndSorting host
         (initial\<lparr>blogPosts := three_dates, sortOrder := oldest\<rparr>)))
       = [''2023-12-31'', ''2024-01-01'', ''2024-06-01'']"
proof -
  have fp: "filteredPosts (applyFiltersAndSorting host s)
      = Array_sort (byDate host (sortOrder s)) (filterByTags (selectedTags s) (blogPosts s))"
    by (simp add: applyFiltersAndSorting_def Let_def)
  have "sorted_wrt (\<lambda>a b. \<exists>ta tb. getTime host (date_created a) = Some ta
            \<and> getTime host (date_created b) = Some tb
            \<and> (if sortOrder s = newest then tb \<le> ta else ta \<le> tb))
        (filteredPosts (applyFiltersAndSorting host s))"
    if "\<forall>p \<in> set (blogPosts s). getTime host (date_created p) \<noteq> None"
    unfolding fp
    by (rule sorted_byDate) (use that filterByTags_subset in blast)
  moreover have "mset (filteredPosts (applyFiltersAndSorting host s))
      = mset (filterByTags (selectedTags s) (blogPosts s))"
    unfolding fp by (rule mset_Array_sort)
  ultimately show ?thesis using three_dates_newest three_dates_oldest by blast
qed

text \<open>
  The witness sorts three date-times without a zone designator on a host two hours
  east of UTC: 09:00 and 12:30 on the first of March and 23:59:59 on the day before.
\<close>

theorem sort_by_date_created_witness:
  "map (\<lambda>p. getTime east_host (date_created p)) (blogPosts (initial\<lparr>blogPosts := three_local_times\<rparr>))
     = [Some 1709276400000, Some 1709289000000, Some 1709243999000]
   \<and> map date_created (filteredPosts (applyFiltersAndSorting east_host
         (initial\<lparr>blogPosts := three_local_times\<rparr>)))
     = [''2024-03-01T12:30:00'', ''2024-03-01T09:00:00'', ''2024-02-29T23:59:59'']
   \<and> sorted_wrt (\<lambda>a b. \<exists>ta tb. getTime east_host (date_created a) = Some ta
            \<and> getTime east_host (date_created b) = Some tb \<and> tb \<le> ta)
        (filteredPosts (applyFiltersAndSorting east_host (initial\<lparr>blogPosts := three_local_times\<rparr>)))"
proof -
  let ?s = "initial\<lparr>blogPosts := three_local_times\<rparr>"
  have "list_all (\<lambda>t. t \<noteq> None) (map (\<lambda>p. getTime east_host (date_created p)) three_local_times)"
    unfolding three_local_times_parse by simp
  then have h: "\<forall>p \<in> set (blogPosts ?s). getTime east_host (date_created p) \<noteq> None"
    by (simp add: list_all_iff)
  have n: "sortOrder ?s = newest" by (simp add: initial_def)
  from sort_by_date_created [where s = ?s and host = east_host] h n three_local_times_parse three_local_times_newest
  show ?thesis by simp
qed

section \<open>Changing the page\<close>

text \<open>
  C9: \<open>goToPage n\<close> leaves the whole state as it is when \<open>n\<close> is below 1 or above
  \<open>totalPages\<close>. When \<open>n\<close> is in that range it sets \<open>currentPage\<close> to \<open>n\<close> and
  requests one scroll to the top, and every other cell of the state keeps its value.
  (The page number is an integer: the handlers pass \<open>currentPage - 1\<close>,
  \<open>currentPage + 1\<close> or the number of a page button.)
\<close>

theorem goToPage_frame:
  "(page < 1 \<or> totalPages s < page \<longrightarrow> goToPage page s = s)
   \<and> (1 \<le> page \<and> page \<le> totalPages s \<longrightarrow>
        goToPage page s = s\<lparr>currentPage := page, scrollToTop := Suc (scrollToTop s)\<rparr>
        \<and> currentPage (goToPage page s) = page
        \<and> scrollToTop (goToPage page s) = Suc (scrollToTop s)
        \<and> selectedTags (goToPage page s) = selectedTags s
        \<and> sortOrder (goToPage page s) = sortOrder s
        \<and> isTagDropdownOpen (goToPage page s) = isTagDropdownOpen s
        \<and> filteredPosts (goToPage page s) = filteredPosts s
        \<and> totalPages (goToPage page s) = totalPages s
        \<and> displayedPosts (goToPage page s) = displayedPosts s
        \<and> blogPosts (goToPage page s) = blogPosts s)"
  by (auto simp: goToPage_def)

theorem goToPage_frame_witness:
  "totalPages ((initial :: post listing)\<lparr>totalPages := 3\<rparr>) < 4
   \<and> goToPage 4 ((initial :: post listing)\<lparr>totalPages := 3\<rparr>) = initial\<lparr>totalPages := 3\<rparr>
   \<and> goToPage 0 ((initial :: post listing)\<lparr>totalPages := 3\<rparr>) = initial\<lparr>totalPages := 3\<rparr>
   \<and> 2 \<le> totalPages ((initial :: post listing)\<lparr>totalPages := 3\<rparr>)
   \<and> goToPage 2 ((initial :: post listing)\<lparr>totalPages := 3\<rparr>)
       = initial\<lparr>totalPages := 3, currentPage := 2, scrollToTop := 1\<rparr>"
  using goToPage_frame [of 4 "(initial :: post listing)\<lparr>totalPages := 3\<rparr>"]
    goToPage_frame [of 0 "(initial :: post listing)\<lparr>totalPages := 3\<rparr>"]
    goToPage_frame [of 2 "(initial :: post listing)\<lparr>totalPages := 3\<rparr>"]
  by (simp add: initial_def)

section \<open>The displayed page\<close>

text \<open>
  C10: the second effect shows at most 12 items; for a page number from 1 on (which
  it is in every reachable host state, see \<open>reachable_currentPage\<close>) the displayed items
  are the items of \<open>filteredPosts\<close> at the positions from \<open>(currentPage - 1) * 12\<close>
  up to, and not including, \<open>currentPage * 12\<close>; and the pages 1 to
  \<open>ceil (filteredCount / 12)\<close>, one after the other, are the filtered list: no item is
  shown twice, none is left out, and the order is kept.
\<close>

theorem displayed_page_window:
  "length (displayedPosts (updateDisplayedPosts s)) \<le> 12
   \<and> (1 \<le> currentPage s \<longrightarrow>
        displayedPosts (updateDisplayedPosts s)
          = take 12 (drop (12 * nat (currentPage s - 1)) (filteredPosts s)))
   \<and> concat (map (\<lambda>k. displayedPosts (updateDisplayedPosts (s\<lparr>currentPage := int k\<rparr>)))
        [1 ..< Suc (nat (Math_ceil (of_nat (length (filteredPosts s)) / of_int POSTS_PER_PAGE)))])
       = filteredPosts s"
proof -
  let ?xs = "filteredPosts s"
  let ?P = "nat (Math_ceil (of_nat (length ?xs) / of_int POSTS_PER_PAGE))"
  have len: "length (displayedPosts (updateDisplayedPosts s)) \<le> 12"
    using length_slice [where xs = ?xs and a = "(currentPage s - 1) * 12" and c = 12]
    by (simp add: updateDisplayedPosts_def Let_def POSTS_PER_PAGE_def)
  have page: "displayedPosts (updateDisplayedPosts (s\<lparr>currentPage := int (Suc k)\<rparr>))
      = take 12 (drop (12 * k) ?xs)" for k
    using displayed_window [of "s\<lparr>currentPage := int (Suc k)\<rparr>"] by simp
  have "map (\<lambda>k. displayedPosts (updateDisplayedPosts (s\<lparr>currentPage := int k\<rparr>))) [1 ..< Suc ?P]
      = map (\<lambda>k. take 12 (drop (12 * k) ?xs)) [0 ..< ?P]"
  proof -
    have "[1 ..< Suc ?P] = map Suc [0 ..< ?P]"
      by (metis map_Suc_upt One_nat_def)
    then show ?thesis by (simp only: map_map comp_def page)
  qed
  then have "concat (map (\<lambda>k. displayedPosts (updateDisplayedPosts (s\<lparr>currentPage := int k\<rparr>)))
        [1 ..< Suc ?P]) = take (12 * ?P) ?xs"
    by (simp add: concat_windows)
  moreover have "length ?xs \<le> 12 * ?P"
    unfolding Math_ceil_pages by linarith
  ultimately show ?thesis using len displayed_window [of s] by simp
qed

theorem displayed_page_window_witness:
  "1 \<le> currentPage (initial\<lparr>filteredPosts := fourteen_posts, currentPage := 2\<rparr>)
   \<and> displayedPosts (updateDisplayedPosts (initial\<lparr>filteredPosts := fourteen_posts, currentPage := 2\<rparr>))
       = [example_post 12 ''2024-01-01'' [], example_post 13 ''2024-01-01'' []]"
proof -
  let ?s = "initial\<lparr>filteredPosts := fourteen_posts, currentPage := 2\<rparr>"
  have cp: "currentPage ?s = 2" and fp: "filteredPosts ?s = fourteen_posts" by simp_all
  have e: "take 12 (drop (12 * nat (2 - 1)) fourteen_posts)
      = [example_post 12 ''2024-01-01'' [], example_post 13 ''2024-01-01'' []]"
    by (simp add: fourteen_posts_def)
  from displayed_page_window [of ?s] have
    "displayedPosts (updateDisplayedPosts ?s)
       = take 12 (drop (12 * nat (currentPage ?s - 1)) (filteredPosts ?s))"
    unfolding cp by simp
  then show ?thesis unfolding cp fp e by simp
qed

end
